theory Spec2Isabelle
  imports Main "HOL-Library.Word"
begin

section \<open>Strings\<close>

text \<open>
  A JavaScript string is a sequence of 16-bit code units; \<open>utf16\<close> writes one from
  ASCII text. White space is what \<^verbatim>\<open>String.prototype.trim\<close> and the regular expression
  class \<^verbatim>\<open>\s\<close> accept: tab, line feed, vertical tab, form feed, carriage return, space,
  no-break space, the other space separators of Unicode, the line and paragraph
  separators and the byte order mark.
\<close>

type_synonym jstring = "16 word list"

definition utf16 :: "string \<Rightarrow> jstring" where
  "utf16 s = map of_char s"

definition isSpace :: "16 word \<Rightarrow> bool" where
  "isSpace c \<longleftrightarrow>
     c \<in> {0x09, 0x0A, 0x0B, 0x0C, 0x0D, 0x20, 0xA0, 0x1680, 0x2028, 0x2029, 0x202F,
          0x205F, 0x3000, 0xFEFF}
     \<or> (0x2000 \<le> c \<and> c \<le> 0x200A)"

definition trim :: "jstring \<Rightarrow> jstring" where
  "trim s = rev (dropWhile isSpace (rev (dropWhile isSpace s)))"

text \<open>\<^verbatim>\<open>s.split(/\s+/)\<close>: the pieces between maximal runs of white space.\<close>

function split_ws :: "jstring \<Rightarrow> jstring \<Rightarrow> jstring list" where
  "split_ws cur [] = [rev cur]"
| "split_ws cur (c # cs) =
     (if isSpace c then rev cur # split_ws [] (dropWhile isSpace cs)
      else split_ws (c # cur) cs)"
  by pat_completeness auto
termination
  by (relation "measure (\<lambda>(cur, s). length s)")
     (auto simp: less_Suc_eq_le length_dropWhile_le)

definition nth_opt :: "'a list \<Rightarrow> nat \<Rightarrow> 'a option" where
  "nth_opt xs i = (if i < length xs then Some (xs ! i) else None)"

definition drop_nth :: "nat \<Rightarrow> 'a list \<Rightarrow> 'a list" where
  "drop_nth k xs = take k xs @ drop (Suc k) xs"

section \<open>JSON documents and sessionStorage\<close>

datatype json =
    JNull
  | JBool bool
  | JNum int
  | JStr jstring
  | JArr "json list"
  | JObj "(string \<times> json) list"

text \<open>
  An entry of \<^verbatim>\<open>sessionStorage\<close> is a text. The model keeps what \<^verbatim>\<open>JSON.parse\<close> makes of it:
  \<open>EmptyText\<close> is the empty string (falsy in the test \<^verbatim>\<open>if (saved)\<close>), \<open>Unparseable\<close> is a
  non-empty text on which \<^verbatim>\<open>JSON.parse\<close> throws, and \<open>Doc v\<close> is a text that parses to \<open>v\<close>;
  \<^verbatim>\<open>setItem(key, JSON.stringify(x))\<close> stores \<open>Doc\<close> of the encoding of \<open>x\<close>.
\<close>

datatype entry = EmptyText | Unparseable | Doc json

type_synonym storage = "string \<rightharpoonup> entry"

text \<open>Property access \<^verbatim>\<open>v.k\<close> on a parsed document; \<open>None\<close> is \<^verbatim>\<open>undefined\<close>. A later
  duplicate key wins in \<^verbatim>\<open>JSON.parse\<close>.\<close>

fun field :: "json \<Rightarrow> string \<Rightarrow> json option" where
  "field (JObj kvs) k = map_of (rev kvs) k"
| "field _ k = None"

fun decodeString :: "json \<Rightarrow> jstring option" where
  "decodeString (JStr w) = Some w"
| "decodeString _ = None"

text \<open>A value that is an array of strings, as the type \<^verbatim>\<open>string[]\<close> asks.\<close>

fun decodeStrings :: "json option \<Rightarrow> jstring list option" where
  "decodeStrings (Some (JArr ws)) = those (map decodeString ws)"
| "decodeStrings _ = None"

text \<open>
  \<^verbatim>\<open>loadSavedProgress\<close> returns a flag and leaves a state. \<open>Loaded b s\<close>: it returned \<open>b\<close> and
  left the state \<open>s\<close>. \<open>Untyped v s\<close>: it returned \<^verbatim>\<open>true\<close> after assigning to the state
  variables the fields of a document \<open>v\<close> that is not of the type it was cast to; these
  values are outside the variables' types, and in \<open>s\<close> the storage is as the function
  left it.
\<close>

datatype 's loaded = Loaded bool 's | Untyped json 's

text \<open>
  The state runs on values outside the types of its variables: the document cast to
  \<^verbatim>\<open>TestProgress\<close>, or the value held by \<^verbatim>\<open>words\<close> or \<^verbatim>\<open>situations\<close> (\<open>None\<close> is
  \<^verbatim>\<open>undefined\<close>). The model does not follow the page further.
\<close>

datatype fault =
    UntypedProgress json
  | UntypedWords "json option"
  | UntypedSituations "json option"

section \<open>The Submission Client\<close>

text \<open>
  One call of the save endpoint, as \<^verbatim>\<open>saveSessionAndFinish\<close> sees it: no authenticated
  session, any other exception inside the \<^verbatim>\<open>try\<close> block (the fetch threw, the response was
  not ok, the body could not be read) with the message of the error, or the identifier
  \<^verbatim>\<open>result.data.id\<close>. A client is the outcome of its n-th call.
\<close>

datatype save_result = NoSession | Rejected string | Saved nat

type_synonym client = "nat \<Rightarrow> save_result"

fun failure_message :: "save_result \<Rightarrow> string option" where
  "failure_message NoSession = Some ''User not authenticated''"
| "failure_message (Rejected msg) = Some msg"
| "failure_message (Saved i) = None"

fun is_saved :: "save_result \<Rightarrow> bool" where
  "is_saved (Saved i) = True"
| "is_saved _ = False"

text \<open>What the page does to the outside world, in order: a save attempt with the responses
  it sends and its retry count, and a \<^verbatim>\<open>setTimeout\<close> with its delay in milliseconds.\<close>

datatype 'r effect = SaveAttempt "'r list" nat | Timeout nat

text \<open>
  What the page is waiting for. \<open>Awaiting n rs k\<close>: the call of \<^verbatim>\<open>saveSessionAndFinish(rs, k)\<close>
  that made the n-th call of the client is suspended at its \<^verbatim>\<open>await\<close>. \<open>Scheduled rs k\<close>: a
  timeout is set that will call \<^verbatim>\<open>saveSessionAndFinish(rs, k)\<close>.
\<close>

datatype 'r task = Awaiting nat "'r list" nat | Scheduled "'r list" nat

text \<open>
  What the fetch of a new test gives: an exception (the request failed or the body is not
  JSON) with its message, a response that is not ok with its status, or the parsed body.
\<close>

datatype fetch_result = FetchThrows string | NotOk nat | Payload json

fun decimal :: "nat \<Rightarrow> string" where
  "decimal n =
     (if n < 10 then [char_of (48 + n)]
      else decimal (n div 10) @ [char_of (48 + n mod 10)])"

declare decimal.simps [simp del]

text \<open>The message of the TypeError for a property read on \<^verbatim>\<open>null\<close>; its wording is the
  JavaScript engine's.\<close>

definition null_property_message :: "string \<Rightarrow> string" where
  "null_property_message k = ''Cannot read properties of null (reading '' @ k @ '')''"

definition start_error :: "string \<Rightarrow> string option" where
  "start_error msg = Some (''Could not start the test: '' @ msg)"

datatype TestState = Ready | Running | Paused | Finished

section \<open>The word association page\<close>

text \<open>\<open>word\<close> is \<^verbatim>\<open>words[currentWordIndex]\<close>, which is \<^verbatim>\<open>undefined\<close> (\<open>None\<close>) out of range.\<close>

record wat_response =
  word :: "jstring option"
  response :: jstring
  timeSpent :: int

record TestProgress =
  p_currentWordIndex :: nat
  p_allResponses :: "wat_response list"
  p_timeLeft :: int
  p_words :: "jstring list"

text \<open>
  The state variables of the component, the interval of \<^verbatim>\<open>timerRef\<close> (\<open>True\<close> while one is
  set), the tab's \<^verbatim>\<open>sessionStorage\<close>, the number of calls made to the Submission Client,
  the effects issued, and the suspended calls and timeouts the page is waiting for. The
  analysis report and its flag are left out: the functions modelled here only reset them.
\<close>

record wat =
  testState :: TestState
  words :: "jstring list"
  currentWordIndex :: nat
  timeLeft :: int
  currentResponse :: jstring
  allResponses :: "wat_response list"
  sessionId :: "nat option"
  isSaving :: bool
  error :: "string option"
  timerRef :: bool
  sessionStorage :: storage
  saveCalls :: nat
  effects :: "wat_response effect list"
  pending :: "wat_response task list"

definition wat_key :: string where
  "wat_key = ''wat-progress''"

definition wat_clearSavedProgress :: "wat \<Rightarrow> wat" where
  "wat_clearSavedProgress s = s\<lparr>sessionStorage := (sessionStorage s)(wat_key := None)\<rparr>"

subsection \<open>Saving the session\<close>

text \<open>
  \<^verbatim>\<open>saveSessionAndFinish(finalResponses, retryCount)\<close> up to its first \<^verbatim>\<open>await\<close>. The
  callback is rebuilt when \<^verbatim>\<open>isSaving\<close> changes, and its guard reads the value it has
  captured: \<open>captured\<close>. A caller on the current render passes the value of the state.
\<close>

definition wat_saveSessionAndFinish ::
  "bool \<Rightarrow> wat_response list \<Rightarrow> nat \<Rightarrow> wat \<Rightarrow> wat" where
  "wat_saveSessionAndFinish captured finalResponses retryCount s =
     (if captured then s
      else s\<lparr>isSaving := True, error := None,
             saveCalls := Suc (saveCalls s),
             effects := effects s @ [SaveAttempt finalResponses retryCount],
             pending := pending s @ [Awaiting (saveCalls s) finalResponses retryCount]\<rparr>)"

text \<open>
  The rest of that call, run when the n-th call of the client has its outcome: the end of
  the \<^verbatim>\<open>try\<close> block or the \<^verbatim>\<open>catch\<close> block, then \<^verbatim>\<open>finally\<close>. The timeout set on a failure
  is never cleared.
\<close>

definition wat_saveSettled ::
  "client \<Rightarrow> nat \<Rightarrow> wat_response list \<Rightarrow> nat \<Rightarrow> wat \<Rightarrow> wat" where
  "wat_saveSettled cl n finalResponses retryCount s =
     (case cl n of
        Saved i \<Rightarrow>
          (wat_clearSavedProgress (s\<lparr>sessionId := Some i, testState := Finished\<rparr>))
            \<lparr>isSaving := False\<rparr>
      | r \<Rightarrow>
          let s2 = s\<lparr>error := failure_message r\<rparr>;
              s3 = (if retryCount < 2
                    then s2\<lparr>effects := effects s2 @ [Timeout 2000],
                            pending := pending s2 @ [Scheduled finalResponses (retryCount + 1)]\<rparr>
                    else s2)
          in s3\<lparr>isSaving := False\<rparr>)"

text \<open>
  The k-th thing the page is waiting for happens: a suspended call gets the outcome of its
  call of the client, or a timeout fires. The timeout calls the very callback that set it:
  that callback has passed its own guard, so the value of \<^verbatim>\<open>isSaving\<close> it has captured is
  \<^verbatim>\<open>false\<close>, whatever the state holds by now.
\<close>

definition wat_reply :: "client \<Rightarrow> nat \<Rightarrow> wat \<Rightarrow> wat" where
  "wat_reply cl k s =
     (case nth_opt (pending s) k of
        Some (Awaiting n finalResponses retryCount) \<Rightarrow>
          wat_saveSettled cl n finalResponses retryCount
            (s\<lparr>pending := drop_nth k (pending s)\<rparr>)
      | _ \<Rightarrow> s)"

definition wat_fire :: "nat \<Rightarrow> wat \<Rightarrow> wat" where
  "wat_fire k s =
     (case nth_opt (pending s) k of
        Some (Scheduled finalResponses retryCount) \<Rightarrow>
          wat_saveSessionAndFinish False finalResponses retryCount
            (s\<lparr>pending := drop_nth k (pending s)\<rparr>)
      | _ \<Rightarrow> s)"

text \<open>\<^verbatim>\<open>handleWordComplete\<close>. The budget of 15 seconds is written out in the source. On the
  last word the time left and the interval are left as they are.\<close>

definition wat_handleWordComplete :: "wat \<Rightarrow> wat" where
  "wat_handleWordComplete s =
     (let timeSpent = max 0 (15 - timeLeft s);
          newResponse = \<lparr>word = nth_opt (words s) (currentWordIndex s),
                         response = trim (currentResponse s),
                         timeSpent = timeSpent\<rparr>;
          newResponses = allResponses s @ [newResponse];
          s1 = s\<lparr>allResponses := newResponses, currentResponse := []\<rparr>
      in if int (currentWordIndex s) = int (length (words s)) - 1
         then wat_saveSessionAndFinish (isSaving s) newResponses 0 s1
         else s1\<lparr>currentWordIndex := currentWordIndex s + 1, timeLeft := 15,
                  timerRef := True\<rparr>)"

subsection \<open>The persisted snapshot\<close>

text \<open>\<^verbatim>\<open>JSON.stringify\<close> of a response and of a \<^verbatim>\<open>TestProgress\<close>; a property that is
  \<^verbatim>\<open>undefined\<close> is left out.\<close>

definition encodeResponse :: "wat_response \<Rightarrow> json" where
  "encodeResponse r =
     JObj ((case word r of None \<Rightarrow> [] | Some w \<Rightarrow> [(''word'', JStr w)]) @
           [(''response'', JStr (response r)), (''timeSpent'', JNum (timeSpent r))])"

definition encodeProgress :: "TestProgress \<Rightarrow> json" where
  "encodeProgress p =
     JObj [(''currentWordIndex'', JNum (int (p_currentWordIndex p))),
           (''allResponses'', JArr (map encodeResponse (p_allResponses p))),
           (''timeLeft'', JNum (p_timeLeft p)),
           (''words'', JArr (map JStr (p_words p)))]"

text \<open>
  The source casts the parsed document to \<^verbatim>\<open>TestProgress\<close> without a check. The decoders say
  when a document has that type, so that its fields fit the typed state variables.
\<close>

definition decodeResponse :: "json \<Rightarrow> wat_response option" where
  "decodeResponse v =
     (case (field v ''response'', field v ''timeSpent'') of
        (Some (JStr r), Some (JNum t)) \<Rightarrow>
          (case field v ''word'' of
             None \<Rightarrow> Some \<lparr>word = None, response = r, timeSpent = t\<rparr>
           | Some (JStr w) \<Rightarrow> Some \<lparr>word = Some w, response = r, timeSpent = t\<rparr>
           | Some _ \<Rightarrow> None)
      | _ \<Rightarrow> None)"

definition decodeProgress :: "json \<Rightarrow> TestProgress option" where
  "decodeProgress v =
     (case (field v ''currentWordIndex'', field v ''allResponses'',
            field v ''timeLeft'', field v ''words'') of
        (Some (JNum i), Some (JArr rs), Some (JNum t), Some (JArr ws)) \<Rightarrow>
          (case (those (map decodeResponse rs), those (map decodeString ws)) of
             (Some rs', Some ws') \<Rightarrow>
               if 0 \<le> i
               then Some \<lparr>p_currentWordIndex = nat i, p_allResponses = rs',
                          p_timeLeft = t, p_words = ws'\<rparr>
               else None
           | _ \<Rightarrow> None)
      | _ \<Rightarrow> None)"

text \<open>The effect that saves the progress while the test is running.\<close>

definition wat_progress :: "wat \<Rightarrow> TestProgress" where
  "wat_progress s =
     \<lparr>p_currentWordIndex = currentWordIndex s, p_allResponses = allResponses s,
      p_timeLeft = timeLeft s, p_words = words s\<rparr>"

definition wat_autoSave :: "wat \<Rightarrow> wat" where
  "wat_autoSave s =
     (if testState s = Running
      then s\<lparr>sessionStorage :=
               (sessionStorage s)(wat_key \<mapsto> Doc (encodeProgress (wat_progress s)))\<rparr>
      else s)"

text \<open>\<^verbatim>\<open>loadSavedProgress\<close>. Reading a property of \<^verbatim>\<open>null\<close> throws inside the \<^verbatim>\<open>try\<close> block.\<close>

definition wat_loadSavedProgress :: "wat \<Rightarrow> wat loaded" where
  "wat_loadSavedProgress s =
     (case sessionStorage s wat_key of
        None \<Rightarrow> Loaded False s
      | Some EmptyText \<Rightarrow> Loaded False s
      | Some Unparseable \<Rightarrow> Loaded False (s\<lparr>sessionStorage := (sessionStorage s)(wat_key := None)\<rparr>)
      | Some (Doc v) \<Rightarrow>
          if v = JNull
          then Loaded False (s\<lparr>sessionStorage := (sessionStorage s)(wat_key := None)\<rparr>)
          else (case decodeProgress v of
                  Some p \<Rightarrow>
                    Loaded True (s\<lparr>words := p_words p,
                                   currentWordIndex := p_currentWordIndex p,
                                   allResponses := p_allResponses p,
                                   timeLeft := p_timeLeft p\<rparr>)
                | None \<Rightarrow> Untyped v s))"

subsection \<open>The timer\<close>

definition wat_startTimer :: "wat \<Rightarrow> wat" where
  "wat_startTimer s = s\<lparr>timerRef := True\<rparr>"

definition wat_pauseTimer :: "wat \<Rightarrow> wat" where
  "wat_pauseTimer s = (if timerRef s then s\<lparr>timerRef := False\<rparr> else s)"

definition wat_resumeTimer :: "wat \<Rightarrow> wat" where
  "wat_resumeTimer s =
     (if testState s = Paused then (wat_startTimer s)\<lparr>testState := Running\<rparr> else s)"

text \<open>One firing of the interval, if one is set.\<close>

definition wat_tick :: "wat \<Rightarrow> wat" where
  "wat_tick s =
     (if timerRef s
      then (if timeLeft s \<le> 1 then s\<lparr>timerRef := False, timeLeft := 0\<rparr>
            else s\<lparr>timeLeft := timeLeft s - 1\<rparr>)
      else s)"

text \<open>The effect that advances when the time has run out.\<close>

definition wat_autoAdvance :: "wat \<Rightarrow> wat" where
  "wat_autoAdvance s =
     (if testState s = Running \<and> timeLeft s \<le> 0 \<and> length (words s) > 0
      then wat_handleWordComplete s else s)"

subsection \<open>Starting a test\<close>

text \<open>
  The second half of \<^verbatim>\<open>startTest\<close>: the reset of the state and the fetch. \<open>kept\<close> is what
  \<^verbatim>\<open>words\<close> holds on entry, which stays there when the fetch fails: the words of the
  state, or a value outside the type when an untyped document has just been loaded.
\<close>

definition wat_failedStart :: "string \<Rightarrow> fault + jstring list \<Rightarrow> wat \<Rightarrow> fault + wat" where
  "wat_failedStart msg kept s =
     (case kept of
        Inl f \<Rightarrow> Inl f
      | Inr ws \<Rightarrow> Inr (s\<lparr>words := ws, error := start_error msg\<rparr>))"

definition wat_startFresh :: "fetch_result \<Rightarrow> fault + jstring list \<Rightarrow> wat \<Rightarrow> fault + wat" where
  "wat_startFresh fetched kept s =
     (let s3 = s\<lparr>allResponses := [], currentWordIndex := 0, currentResponse := [],
                  timeLeft := 15, isSaving := False\<rparr>
      in (case fetched of
            FetchThrows msg \<Rightarrow> wat_failedStart msg kept s3
          | NotOk status \<Rightarrow>
              wat_failedStart (''HTTP '' @ decimal status @ '': Failed to fetch test data'')
                kept s3
          | Payload data \<Rightarrow>
              if data = JNull
              then wat_failedStart (null_property_message ''words'') kept s3
              else (case field data ''words'' of
                      Some (JArr ws) \<Rightarrow>
                        if ws = []
                        then wat_failedStart ''Invalid test data received'' kept s3
                        else (case those (map decodeString ws) of
                                Some ws' \<Rightarrow>
                                  Inr (wat_startTimer (s3\<lparr>words := ws', testState := Running\<rparr>))
                              | None \<Rightarrow> Inl (UntypedWords (Some (JArr ws))))
                    | _ \<Rightarrow> wat_failedStart ''Invalid test data received'' kept s3)))"

text \<open>
  \<^verbatim>\<open>startTest\<close>: \<open>confirmResume\<close> is the answer to \<^verbatim>\<open>window.confirm\<close>, asked only when saved
  progress was found; \<open>fetched\<close> is what the fetch gives, made only on a fresh start.
\<close>

definition wat_startTest :: "bool \<Rightarrow> fetch_result \<Rightarrow> wat \<Rightarrow> fault + wat" where
  "wat_startTest confirmResume fetched s =
     (case wat_loadSavedProgress (s\<lparr>error := None, sessionId := None\<rparr>) of
        Untyped v s1 \<Rightarrow>
          if confirmResume then Inl (UntypedProgress v)
          else wat_startFresh fetched
                 (case decodeStrings (field v ''words'') of
                    Some ws \<Rightarrow> Inr ws
                  | None \<Rightarrow> Inl (UntypedWords (field v ''words'')))
                 (wat_clearSavedProgress s1)
      | Loaded hasSavedProgress s1 \<Rightarrow>
          if hasSavedProgress \<and> confirmResume
          then Inr (wat_startTimer (s1\<lparr>testState := Running\<rparr>))
          else wat_startFresh fetched (Inr (words s1))
                 (if hasSavedProgress then wat_clearSavedProgress s1 else s1))"

text \<open>A page load in the same tab: the state variables take their initial values, no
  interval is set, nothing is waited for any more, and \<^verbatim>\<open>sessionStorage\<close> is kept.\<close>

definition wat_reload :: "wat \<Rightarrow> wat" where
  "wat_reload s =
     \<lparr>testState = Ready, words = [], currentWordIndex = 0, timeLeft = 15,
      currentResponse = [], allResponses = [], sessionId = None, isSaving = False,
      error = None, timerRef = False, sessionStorage = sessionStorage s,
      saveCalls = saveCalls s, effects = effects s, pending = []\<rparr>"

subsection \<open>Events of the page\<close>

text \<open>
  \<^verbatim>\<open>handleKeyPress\<close>, the global key handler, with \<^verbatim>\<open>e.key\<close> and \<^verbatim>\<open>e.ctrlKey\<close>.
\<close>

definition wat_handleKeyPress :: "string \<Rightarrow> bool \<Rightarrow> wat \<Rightarrow> wat" where
  "wat_handleKeyPress key ctrlKey s =
     (if testState s = Running
      then (if key = ''Escape'' then wat_pauseTimer (s\<lparr>testState := Paused\<rparr>)
            else if key = ''Enter'' \<and> ctrlKey \<and> trim (currentResponse s) \<noteq> []
            then wat_handleWordComplete s
            else s)
      else if testState s = Paused \<and> key = ''Enter'' then wat_resumeTimer s
      else s)"

text \<open>
  The running screen, with the input and its buttons, is rendered when the test is
  running and there is at least one word; a running test with no words shows the loading
  screen.
\<close>

definition wat_onRunningScreen :: "wat \<Rightarrow> bool" where
  "wat_onRunningScreen s \<longleftrightarrow> testState s = Running \<and> words s \<noteq> []"

text \<open>
  The events of the page: typing into the input, a firing of the interval, a key, clicks
  on the buttons, a render that follows a change of the state made by an effect, the
  outcome of a suspended call and the firing of a timeout. A button acts only where it is
  rendered and enabled: the input, the pause button, the small next button (shown while
  the trimmed input is not empty) and the main button (disabled while the trimmed input
  is empty or a save is running) on the running screen, the resume button on the paused
  screen. The key handler listens on the window.
\<close>

datatype wat_event =
    Input jstring
  | Tick
  | KeyDown string bool
  | ClickPause
  | ClickNext
  | ClickSubmit
  | ClickResume
  | Render
  | Reply nat
  | Fire nat

fun wat_handle :: "client \<Rightarrow> wat_event \<Rightarrow> wat \<Rightarrow> wat" where
  "wat_handle cl (Input v) s =
     (if wat_onRunningScreen s then s\<lparr>currentResponse := v\<rparr> else s)"
| "wat_handle cl Tick s = wat_tick s"
| "wat_handle cl (KeyDown key ctrlKey) s = wat_handleKeyPress key ctrlKey s"
| "wat_handle cl ClickPause s =
     (if wat_onRunningScreen s then wat_pauseTimer (s\<lparr>testState := Paused\<rparr>) else s)"
| "wat_handle cl ClickNext s =
     (if wat_onRunningScreen s \<and> trim (currentResponse s) \<noteq> []
      then wat_handleWordComplete s else s)"
| "wat_handle cl ClickSubmit s =
     (if wat_onRunningScreen s \<and> \<not> (trim (currentResponse s) = [] \<or> isSaving s)
      then wat_handleWordComplete s else s)"
| "wat_handle cl ClickResume s =
     (if testState s = Paused then wat_resumeTimer s else s)"
| "wat_handle cl Render s = s"
| "wat_handle cl (Reply k) s = wat_reply cl k s"
| "wat_handle cl (Fire k) s = wat_fire k s"

text \<open>
  One event: what it does to the state, then the render with the effect that advances
  and the effect that saves. When the advancing effect has changed the state, React
  renders again and runs the effects again: that is the event \<open>Render\<close>. The advancing
  effect depends on \<^verbatim>\<open>handleWordComplete\<close>, which is rebuilt when the responses change, so
  after it has fired on the last word (time left zero, test still running) it is due
  again at every render, and the page goes through \<open>Render\<close> again and again by itself.
\<close>

definition wat_step :: "client \<Rightarrow> wat_event \<Rightarrow> wat \<Rightarrow> wat" where
  "wat_step cl ev s = wat_autoSave (wat_autoAdvance (wat_handle cl ev s))"

definition wat_run :: "client \<Rightarrow> wat_event list \<Rightarrow> wat \<Rightarrow> wat" where
  "wat_run cl evs s = foldl (\<lambda>s ev. wat_step cl ev s) s evs"

section \<open>The situation reaction page\<close>

text \<open>
  The page has the state variables of the word page under other names, no timer, and the
  time \<^verbatim>\<open>startTime\<close> at which the current situation was shown. Names that the word page
  uses too carry the prefix \<open>s_\<close>. \<^verbatim>\<open>Date.now()\<close> is the argument \<open>now\<close>, in milliseconds.
\<close>

record srt_response =
  situation :: "jstring option"
  s_response :: jstring
  s_timeSpent :: int

record SrtProgress =
  p_currentSituationIndex :: nat
  p_srtResponses :: "srt_response list"
  p_situations :: "jstring list"

record srt =
  s_testState :: TestState
  situations :: "jstring list"
  currentSituationIndex :: nat
  s_currentResponse :: jstring
  s_allResponses :: "srt_response list"
  s_sessionId :: "nat option"
  s_isSaving :: bool
  s_error :: "string option"
  startTime :: int
  s_sessionStorage :: storage
  s_saveCalls :: nat
  s_effects :: "srt_response effect list"
  s_pending :: "srt_response task list"

definition srt_key :: string where
  "srt_key = ''srt-progress''"

definition srt_clearSavedProgress :: "srt \<Rightarrow> srt" where
  "srt_clearSavedProgress s = s\<lparr>s_sessionStorage := (s_sessionStorage s)(srt_key := None)\<rparr>"

text \<open>\<^verbatim>\<open>saveSessionAndFinish\<close> of this page, in the same two parts.\<close>

definition srt_saveSessionAndFinish ::
  "bool \<Rightarrow> srt_response list \<Rightarrow> nat \<Rightarrow> srt \<Rightarrow> srt" where
  "srt_saveSessionAndFinish captured finalResponses retryCount s =
     (if captured then s
      else s\<lparr>s_isSaving := True, s_error := None,
             s_saveCalls := Suc (s_saveCalls s),
             s_effects := s_effects s @ [SaveAttempt finalResponses retryCount],
             s_pending := s_pending s @ [Awaiting (s_saveCalls s) finalResponses retryCount]\<rparr>)"

definition srt_saveSettled ::
  "client \<Rightarrow> nat \<Rightarrow> srt_response list \<Rightarrow> nat \<Rightarrow> srt \<Rightarrow> srt" where
  "srt_saveSettled cl n finalResponses retryCount s =
     (case cl n of
        Saved i \<Rightarrow>
          (srt_clearSavedProgress (s\<lparr>s_sessionId := Some i, s_testState := Finished\<rparr>))
            \<lparr>s_isSaving := False\<rparr>
      | r \<Rightarrow>
          let s2 = s\<lparr>s_error := failure_message r\<rparr>;
              s3 = (if retryCount < 2
                    then s2\<lparr>s_effects := s_effects s2 @ [Timeout 2000],
                            s_pending := s_pending s2 @ [Scheduled finalResponses (retryCount + 1)]\<rparr>
                    else s2)
          in s3\<lparr>s_isSaving := False\<rparr>)"

definition srt_reply :: "client \<Rightarrow> nat \<Rightarrow> srt \<Rightarrow> srt" where
  "srt_reply cl k s =
     (case nth_opt (s_pending s) k of
        Some (Awaiting n finalResponses retryCount) \<Rightarrow>
          srt_saveSettled cl n finalResponses retryCount
            (s\<lparr>s_pending := drop_nth k (s_pending s)\<rparr>)
      | _ \<Rightarrow> s)"

definition srt_fire :: "nat \<Rightarrow> srt \<Rightarrow> srt" where
  "srt_fire k s =
     (case nth_opt (s_pending s) k of
        Some (Scheduled finalResponses retryCount) \<Rightarrow>
          srt_saveSessionAndFinish False finalResponses retryCount
            (s\<lparr>s_pending := drop_nth k (s_pending s)\<rparr>)
      | _ \<Rightarrow> s)"

text \<open>\<^verbatim>\<open>wordCount\<close>, which an effect keeps equal to this function of the input, and
  \<^verbatim>\<open>isResponseValid\<close>.\<close>

definition wordCount :: "jstring \<Rightarrow> nat" where
  "wordCount buf =
     length (filter (\<lambda>w. length w > 0) (split_ws [] (trim buf)))"

definition isResponseValid :: "jstring \<Rightarrow> bool" where
  "isResponseValid buf = (length (trim buf) \<ge> 10 \<and> wordCount buf \<ge> 3)"

text \<open>\<^verbatim>\<open>handleNext\<close>. On the last situation the input is left as it is.\<close>

definition srt_handleNext :: "int \<Rightarrow> srt \<Rightarrow> srt" where
  "srt_handleNext now s =
     (if s_isSaving s \<or> trim (s_currentResponse s) = [] then s
      else
        let timeSpent = max 0 ((now - startTime s) div 1000);
            newResponse = \<lparr>situation = nth_opt (situations s) (currentSituationIndex s),
                           s_response = trim (s_currentResponse s),
                           s_timeSpent = timeSpent\<rparr>;
            newResponses = s_allResponses s @ [newResponse]
        in if int (currentSituationIndex s) = int (length (situations s)) - 1
           then srt_saveSessionAndFinish (s_isSaving s) newResponses 0
                  (s\<lparr>s_allResponses := newResponses\<rparr>)
           else s\<lparr>s_allResponses := newResponses, s_currentResponse := [],
                  currentSituationIndex := currentSituationIndex s + 1,
                  startTime := now\<rparr>)"

definition srt_handleKeyPress :: "int \<Rightarrow> string \<Rightarrow> bool \<Rightarrow> srt \<Rightarrow> srt" where
  "srt_handleKeyPress now key ctrlKey s =
     (if s_testState s = Running
      then (if key = ''Enter'' \<and> ctrlKey \<and> trim (s_currentResponse s) \<noteq> []
            then srt_handleNext now s else s)
      else s)"

text \<open>
  The running screen, with the text area and the button, is rendered when the test is
  running and there is at least one situation. The events of the page: typing into the
  text area, a key, a click on the button, which is disabled while the response is not
  valid or a save is running, the outcome of a suspended call and the firing of a
  timeout. The key handler listens on the window.
\<close>

definition srt_onRunningScreen :: "srt \<Rightarrow> bool" where
  "srt_onRunningScreen s \<longleftrightarrow> s_testState s = Running \<and> situations s \<noteq> []"

datatype srt_event =
    S_Input jstring
  | S_KeyDown string bool
  | S_ClickSubmit
  | S_Reply nat
  | S_Fire nat

fun srt_handle :: "client \<Rightarrow> int \<Rightarrow> srt_event \<Rightarrow> srt \<Rightarrow> srt" where
  "srt_handle cl now (S_Input v) s =
     (if srt_onRunningScreen s then s\<lparr>s_currentResponse := v\<rparr> else s)"
| "srt_handle cl now (S_KeyDown key ctrlKey) s = srt_handleKeyPress now key ctrlKey s"
| "srt_handle cl now S_ClickSubmit s =
     (if srt_onRunningScreen s \<and> \<not> (\<not> isResponseValid (s_currentResponse s) \<or> s_isSaving s)
      then srt_handleNext now s else s)"
| "srt_handle cl now (S_Reply k) s = srt_reply cl k s"
| "srt_handle cl now (S_Fire k) s = srt_fire k s"

text \<open>The effect that records the start time when the situation or the test state has
  changed, and the effect that saves the progress.\<close>

definition srt_recordStart :: "int \<Rightarrow> srt \<Rightarrow> srt \<Rightarrow> srt" where
  "srt_recordStart now s s' =
     (if (currentSituationIndex s' \<noteq> currentSituationIndex s \<or> s_testState s' \<noteq> s_testState s)
         \<and> s_testState s' = Running
      then s'\<lparr>startTime := now\<rparr> else s')"

definition encodeSrtResponse :: "srt_response \<Rightarrow> json" where
  "encodeSrtResponse r =
     JObj ((case situation r of None \<Rightarrow> [] | Some w \<Rightarrow> [(''situation'', JStr w)]) @
           [(''response'', JStr (s_response r)), (''timeSpent'', JNum (s_timeSpent r))])"

definition encodeSrtProgress :: "SrtProgress \<Rightarrow> json" where
  "encodeSrtProgress p =
     JObj [(''currentSituationIndex'', JNum (int (p_currentSituationIndex p))),
           (''allResponses'', JArr (map encodeSrtResponse (p_srtResponses p))),
           (''situations'', JArr (map JStr (p_situations p)))]"



definition srt_autoSave :: "srt \<Rightarrow> srt" where
  "srt_autoSave s =
     (if s_testState s = Running
      then s\<lparr>s_sessionStorage := (s_sessionStorage s)(srt_key \<mapsto> Doc (encodeSrtProgress
               \<lparr>p_currentSituationIndex = currentSituationIndex s,
                p_srtResponses = s_allResponses s, p_situations = situations s\<rparr>))\<rparr>
      else s)"

definition srt_step :: "client \<Rightarrow> int \<times> srt_event \<Rightarrow> srt \<Rightarrow> srt" where
  "srt_step cl ev s = srt_autoSave (srt_recordStart (fst ev) s (srt_handle cl (fst ev) (snd ev) s))"

definition srt_run :: "client \<Rightarrow> (int \<times> srt_event) list \<Rightarrow> srt \<Rightarrow> srt" where
  "srt_run cl evs s = foldl (\<lambda>s ev. srt_step cl ev s) s evs"

subsection \<open>Starting the situation test\<close>







section \<open>The first word association page\<close>

text \<open>
  The page under \<^verbatim>\<open>src/app/wat\<close> has no saved progress, no pause and no retry. Its
  \<^verbatim>\<open>startTest\<close> reads the body of the response whatever its status: \<open>BodyThrows\<close> is an
  exception of the request or of reading the body as JSON. \<open>l_alerts\<close> are the messages
  shown by \<^verbatim>\<open>alert\<close>.
\<close>

datatype body_result = BodyThrows | Body json

record legacy_response =
  l_word :: "jstring option"
  l_response :: jstring

record legacy =
  l_testState :: TestState
  l_words :: "jstring list"
  l_currentWordIndex :: nat
  l_timeLeft :: int
  l_currentResponse :: jstring
  l_allResponses :: "legacy_response list"
  l_sessionId :: "nat option"
  l_alerts :: "string list"

definition legacy_alert :: string where
  "legacy_alert =
     ''Could not start the test. Ensure your backend is running and the API URL is correct.''"

definition legacy_startTest :: "body_result \<Rightarrow> legacy \<Rightarrow> fault + legacy" where
  "legacy_startTest fetched s =
     (let s1 = s\<lparr>l_sessionId := None, l_allResponses := [], l_currentWordIndex := 0,
                  l_currentResponse := [], l_timeLeft := 15, l_testState := Running\<rparr>;
          failed = s1\<lparr>l_alerts := l_alerts s1 @ [legacy_alert], l_testState := Ready\<rparr>
      in (case fetched of
            BodyThrows \<Rightarrow> Inr failed
          | Body data \<Rightarrow>
              if data = JNull then Inr failed
              else (case field data ''words'' of
                      Some (JArr ws) \<Rightarrow>
                        (case those (map decodeString ws) of
                           Some ws' \<Rightarrow> Inr (s1\<lparr>l_words := ws'\<rparr>)
                         | None \<Rightarrow> Inl (UntypedWords (Some (JArr ws))))
                    | other \<Rightarrow> Inl (UntypedWords other))))"

section \<open>Example sessions\<close>

text \<open>The session of two words just after a fresh start, the same session on its last
  word and with two seconds left on the first, and clients: one that never saves, one
  that saves at once, one that fails twice and saves from then on, one that fails once.\<close>

definition wat_fresh :: wat where
  "wat_fresh =
     \<lparr>testState = Running, words = [utf16 ''Fire'', utf16 ''River''], currentWordIndex = 0,
      timeLeft = 15, currentResponse = [], allResponses = [], sessionId = None,
      isSaving = False, error = None, timerRef = True, sessionStorage = Map.empty,
      saveCalls = 0, effects = [], pending = []\<rparr>"

definition fire_truck :: wat_response where
  "fire_truck = \<lparr>word = Some (utf16 ''Fire''), response = utf16 ''Fire truck'', timeSpent = 3\<rparr>"

definition wat_on_river :: wat where
  "wat_on_river = wat_fresh\<lparr>currentWordIndex := 1, allResponses := [fire_truck]\<rparr>"

definition wat_late :: wat where
  "wat_late = wat_fresh\<lparr>timeLeft := 2\<rparr>"

text \<open>The last word with one second left and nothing typed, the response that the
  expiry of the time captures there, and the last word with an answer typed in time.\<close>

definition wat_expiring :: wat where
  "wat_expiring = wat_on_river\<lparr>timeLeft := 1\<rparr>"

definition river_blank :: wat_response where
  "river_blank = \<lparr>word = Some (utf16 ''River''), response = [], timeSpent = 15\<rparr>"

definition wat_answering :: wat where
  "wat_answering = wat_on_river\<lparr>currentResponse := utf16 ''boat'', timeLeft := 9\<rparr>"

definition river_boat :: wat_response where
  "river_boat = \<lparr>word = Some (utf16 ''River''), response = utf16 ''boat'', timeSpent = 6\<rparr>"

definition offline :: client where
  "offline n = Rejected ''Failed to fetch''"

definition online :: client where
  "online n = Saved 7"

definition from_third :: client where
  "from_third n = (if n < 2 then Rejected ''Failed to fetch'' else Saved (7 + n))"

definition from_second :: client where
  "from_second n = (if n < 1 then Rejected ''Failed to fetch'' else Saved (7 + n))"

text \<open>The situation page of two situations just after a fresh start, the first page as it
  is mounted, and bodies a prompt source can send.\<close>

definition srt_fresh :: srt where
  "srt_fresh =
     \<lparr>s_testState = Running,
      situations = [utf16 ''You see a fire'', utf16 ''You are lost''],
      currentSituationIndex = 0, s_currentResponse = [], s_allResponses = [],
      s_sessionId = None, s_isSaving = False, s_error = None, startTime = 0,
      s_sessionStorage = Map.empty, s_saveCalls = 0, s_effects = [], s_pending = []\<rparr>"

definition legacy_mounted :: legacy where
  "legacy_mounted =
     \<lparr>l_testState = Ready, l_words = [], l_currentWordIndex = 0, l_timeLeft = 15,
      l_currentResponse = [], l_allResponses = [], l_sessionId = None, l_alerts = []\<rparr>"

definition no_words :: json where
  "no_words = JObj [(''words'', JArr [])]"

definition two_words :: json where
  "two_words = JObj [(''words'', JArr [JStr (utf16 ''Fire''), JStr (utf16 ''River'')])]"


section \<open>Properties of states\<close>



text \<open>
  Two facts about the states that a started session goes through: while a save is
  flagged, something is waited for; and a running test whose interval is not set has no
  time left.
\<close>

definition wat_sound :: "wat \<Rightarrow> bool" where
  "wat_sound s \<longleftrightarrow> (isSaving s \<longrightarrow> pending s \<noteq> [])
     \<and> (testState s = Running \<and> \<not> timerRef s \<longrightarrow> timeLeft s = 0)"

text \<open>
  Two states are alike when they differ at most in the error, in the identifier, and in
  whether the interval is set where no time is left: the next firing of such an interval
  only clears it.
\<close>

definition wat_alike :: "wat \<Rightarrow> wat \<Rightarrow> bool" where
  "wat_alike s r \<longleftrightarrow>
     testState r = testState s \<and> words r = words s
     \<and> currentWordIndex r = currentWordIndex s \<and> timeLeft r = timeLeft s
     \<and> currentResponse r = currentResponse s \<and> allResponses r = allResponses s
     \<and> isSaving r = isSaving s \<and> sessionStorage r = sessionStorage s
     \<and> saveCalls r = saveCalls s \<and> effects r = effects s \<and> pending r = pending s
     \<and> (timerRef r = timerRef s \<or> timeLeft s = 0)"

section \<open>The texts of the examples\<close>

lemma utf16_Nil [simp]: "utf16 s = [] \<longleftrightarrow> s = []"
  by (simp add: utf16_def)

lemma trim_Nil [simp]: "trim [] = []"
  by (simp add: trim_def)

lemma trim_fire_truck [simp]: "trim (utf16 ''Fire truck'') = utf16 ''Fire truck''"
  by (simp add: trim_def utf16_def isSpace_def)

lemma trim_boat [simp]: "trim (utf16 ''boat'') = utf16 ''boat''"
  by (simp add: trim_def utf16_def isSpace_def)

lemma trim_river_ba [simp]: "trim (utf16 ''River ba'') = utf16 ''River ba''"
  by (simp add: trim_def utf16_def isSpace_def)

lemma trim_hi [simp]: "trim (utf16 ''hi'') = utf16 ''hi''"
  by (simp add: trim_def utf16_def isSpace_def)

lemma trim_fire_brigade [simp]:
  "trim (utf16 ''call the fire brigade'') = utf16 ''call the fire brigade''"
  by (simp add: trim_def utf16_def isSpace_def)

lemma trim_ask [simp]: "trim (utf16 ''ask for the way'') = utf16 ''ask for the way''"
  by (simp add: trim_def utf16_def isSpace_def)

lemma fire_brigade_valid [simp]: "isResponseValid (utf16 ''call the fire brigade'')"
  by (simp add: isResponseValid_def wordCount_def trim_def utf16_def isSpace_def)

lemma hi_invalid [simp]: "\<not> isResponseValid (utf16 ''hi'')"
  by (simp add: isResponseValid_def wordCount_def trim_def utf16_def isSpace_def)

text \<open>White space beyond ASCII is trimmed too.\<close>

lemma trim_unicode: "trim [0xA0, 0x2003, 0x68, 0x69, 0x3000, 0xFEFF] = utf16 ''hi''"
  by (simp add: trim_def utf16_def isSpace_def)

lemma wat_run_Nil [simp]: "wat_run cl [] s = s"
  by (simp add: wat_run_def)

lemma wat_run_Cons [simp]: "wat_run cl (ev # evs) s = wat_run cl evs (wat_step cl ev s)"
  by (simp add: wat_run_def)

lemma srt_run_Nil [simp]: "srt_run cl [] s = s"
  by (simp add: srt_run_def)

lemma srt_run_Cons [simp]: "srt_run cl (ev # evs) s = srt_run cl evs (srt_step cl ev s)"
  by (simp add: srt_run_def)

text \<open>The screens on which the input and the buttons act.\<close>

lemma wat_onRunningScreen_iff [simp]:
  "wat_onRunningScreen s \<longleftrightarrow> testState s = Running \<and> words s \<noteq> []"
  by (simp add: wat_onRunningScreen_def)

lemma srt_onRunningScreen_iff [simp]:
  "srt_onRunningScreen s \<longleftrightarrow> s_testState s = Running \<and> situations s \<noteq> []"
  by (simp add: srt_onRunningScreen_def)

section \<open>Responses and index\<close>

lemma offline_never: "\<forall>n. \<not> is_saved (offline n)"
  by (simp add: offline_def)








subsection \<open>The same for the situation page\<close>












section \<open>Responses below the minimum\<close>

text \<open>The button of the situation page is dead for every response that is not valid.\<close>

lemma srt_button_refuses_invalid:
  "\<not> isResponseValid (s_currentResponse s) \<Longrightarrow> srt_handle cl now S_ClickSubmit s = s"
  by simp

text \<open>
  Claim C3. The button of the situation page is disabled for a response of fewer than
  three words or fewer than ten trimmed characters, but the key handler asks only for a
  non-empty trimmed input, and so does \<^verbatim>\<open>handleNext\<close>. With the input \<^verbatim>\<open>hi\<close> on the first
  of two situations, the response is not valid and a click changes nothing, while
  Ctrl+Enter at time 4000 appends the response and moves to the second situation.
\<close>

theorem short_response_submitted_by_key:
  "\<not> isResponseValid (utf16 ''hi'')
   \<and> srt_step offline (4000, S_ClickSubmit)
         (srt_autoSave (srt_fresh\<lparr>s_currentResponse := utf16 ''hi''\<rparr>))
       = srt_autoSave (srt_fresh\<lparr>s_currentResponse := utf16 ''hi''\<rparr>)
   \<and> s_allResponses (srt_step offline (4000, S_KeyDown ''Enter'' True)
         (srt_autoSave (srt_fresh\<lparr>s_currentResponse := utf16 ''hi''\<rparr>)))
       = [\<lparr>situation = Some (utf16 ''You see a fire''), s_response = utf16 ''hi'',
           s_timeSpent = 4\<rparr>]
   \<and> currentSituationIndex (srt_step offline (4000, S_KeyDown ''Enter'' True)
         (srt_autoSave (srt_fresh\<lparr>s_currentResponse := utf16 ''hi''\<rparr>))) = 1
   \<and> s_currentResponse (srt_step offline (4000, S_KeyDown ''Enter'' True)
         (srt_autoSave (srt_fresh\<lparr>s_currentResponse := utf16 ''hi''\<rparr>))) = []"
  by (simp add: srt_fresh_def srt_step_def srt_recordStart_def srt_autoSave_def
      srt_handleKeyPress_def srt_handleNext_def Let_def nth_opt_def)

section \<open>Failure of the prompt source\<close>

text \<open>
  On the word page with saved progress, a fetch that throws, a response that is not ok,
  and a body whose \<^verbatim>\<open>words\<close> is not a non-empty array leave the test state and the words
  as they were after the look at the saved progress, and show an error.
\<close>

lemma wat_start_failure:
  assumes "wat_loadSavedProgress (s\<lparr>error := None, sessionId := None\<rparr>) = Loaded has s1"
    and "\<not> (has \<and> confirmResume)"
    and "case fetched of
           FetchThrows msg \<Rightarrow> True
         | NotOk status \<Rightarrow> True
         | Payload data \<Rightarrow> (case field data ''words'' of
                              Some (JArr ws) \<Rightarrow> ws = [] | _ \<Rightarrow> True)"
  shows "\<exists>s'. wat_startTest confirmResume fetched s = Inr s'
           \<and> testState s' = testState s \<and> words s' = words s1 \<and> error s' \<noteq> None"
proof -
  have t: "testState s1 = testState s"
    using assms(1)
    by (auto simp: wat_loadSavedProgress_def split: option.splits entry.splits if_splits)
  show ?thesis
  proof (cases fetched)
    case (FetchThrows msg)
    with assms(1,2) t show ?thesis
      by (auto simp: wat_startTest_def wat_startFresh_def wat_failedStart_def
          wat_clearSavedProgress_def start_error_def Let_def)
  next
    case (NotOk status)
    with assms(1,2) t show ?thesis
      by (auto simp: wat_startTest_def wat_startFresh_def wat_failedStart_def
          wat_clearSavedProgress_def start_error_def Let_def)
  next
    case (Payload data)
    with assms t show ?thesis
      by (auto simp: wat_startTest_def wat_startFresh_def wat_failedStart_def
          wat_clearSavedProgress_def start_error_def Let_def
          split: option.splits json.splits)
  qed
qed

text \<open>
  Claim C9. The first word page sets the test running before it fetches and takes
  \<^verbatim>\<open>data.words\<close> as it comes: a prompt source that answers with an empty list of words
  leaves the test running on no words, with no message shown. The later page rejects the
  same body: the test stays ready and an error is shown.
\<close>

theorem first_page_runs_on_no_words:
  "legacy_startTest (Body no_words) legacy_mounted = Inr (legacy_mounted\<lparr>l_testState := Running\<rparr>)
   \<and> (\<exists>s'. wat_startTest False (Payload no_words) (wat_reload wat_fresh) = Inr s'
          \<and> testState s' = Ready \<and> words s' = [] \<and> error s' \<noteq> None)"
  by (simp add: legacy_startTest_def legacy_mounted_def no_words_def Let_def
      wat_startTest_def wat_startFresh_def wat_failedStart_def wat_loadSavedProgress_def
      wat_reload_def wat_fresh_def start_error_def)

section \<open>Saved progress\<close>

lemma decodeResponse_encode: "decodeResponse (encodeResponse r) = Some r"
  by (cases "word r") (simp_all add: decodeResponse_def encodeResponse_def)

lemma those_decodeResponse: "those (map (decodeResponse \<circ> encodeResponse) rs) = Some rs"
  by (induction rs) (simp_all add: decodeResponse_encode)

lemma those_decodeString: "those (map (decodeString \<circ> JStr) ws) = Some ws"
  by (induction ws) simp_all

lemma decodeProgress_encode: "decodeProgress (encodeProgress p) = Some p"
  by (simp add: decodeProgress_def encodeProgress_def those_decodeResponse those_decodeString)

lemma encodeProgress_not_null: "encodeProgress p \<noteq> JNull"
  by (simp add: encodeProgress_def)

text \<open>Reloading the page and resuming brings back the four saved variables and starts
  the timer; the input is empty and nothing is waited for.\<close>

lemma wat_resume:
  assumes "testState s = Running"
  shows "wat_startTest True fetched (wat_reload (wat_autoSave s)) =
     Inr \<lparr>testState = Running, words = words s, currentWordIndex = currentWordIndex s,
          timeLeft = timeLeft s, currentResponse = [], allResponses = allResponses s,
          sessionId = None, isSaving = False, error = None, timerRef = True,
          sessionStorage = sessionStorage (wat_autoSave s),
          saveCalls = saveCalls s, effects = effects s, pending = []\<rparr>"
  using assms
  by (simp add: wat_startTest_def wat_reload_def wat_autoSave_def wat_loadSavedProgress_def
      decodeProgress_encode encodeProgress_not_null wat_progress_def wat_startTimer_def)

text \<open>
  Claim C10. The snapshot is built from the index, the responses, the time left and the
  words only: whatever the input holds, the stored entry is the same. After a reload,
  resuming a running session restores these four and leaves the input empty, and every
  start on a reloaded page, resumed or fresh, that the model follows ends with an empty
  input.
\<close>

theorem input_is_not_persisted:
  assumes "testState s = Running"
  shows "sessionStorage (wat_autoSave (s\<lparr>currentResponse := typed\<rparr>)) =
           sessionStorage (wat_autoSave s)
     \<and> (\<exists>r. wat_startTest True fetched (wat_reload (wat_autoSave (s\<lparr>currentResponse := typed\<rparr>)))
              = Inr r
            \<and> currentResponse r = [] \<and> testState r = Running
            \<and> words r = words s \<and> currentWordIndex r = currentWordIndex s
            \<and> allResponses r = allResponses s \<and> timeLeft r = timeLeft s)
     \<and> (\<forall>r. wat_startTest confirmResume fetched (wat_reload u) = Inr r
            \<longrightarrow> currentResponse r = [])"
proof -
  have a: "sessionStorage (wat_autoSave (s\<lparr>currentResponse := typed\<rparr>)) =
           sessionStorage (wat_autoSave s)"
    by (simp add: wat_autoSave_def wat_progress_def)
  have b: "testState (s\<lparr>currentResponse := typed\<rparr>) = Running"
    using assms by simp
  have f: "currentResponse r = []"
    if "wat_startFresh fetched kept t = Inr r" for kept t r
    using that
    by (auto simp: wat_startFresh_def wat_failedStart_def Let_def wat_startTimer_def
        split: fetch_result.splits if_splits option.splits json.splits sum.splits)
  have c: "currentResponse r = []"
    if "wat_startTest confirmResume fetched (wat_reload u) = Inr r" for r
    using that f
    by (auto simp: wat_startTest_def wat_loadSavedProgress_def wat_reload_def
        wat_startTimer_def
        split: option.splits entry.splits if_splits)
  show ?thesis using a c by (simp add: wat_resume [OF b])
qed

theorem input_is_not_persisted_witness:
  "testState wat_on_river = Running
   \<and> (\<exists>r. wat_startTest True (Payload two_words)
             (wat_reload (wat_autoSave (wat_on_river\<lparr>currentResponse := utf16 ''River ba''\<rparr>)))
           = Inr r
          \<and> currentResponse r = [] \<and> currentWordIndex r = 1)
   \<and> (\<exists>r. wat_startTest False (Payload two_words) (wat_reload wat_on_river) = Inr r
          \<and> currentResponse r = [] \<and> words r = [utf16 ''Fire'', utf16 ''River''])"
proof -
  have "wat_startTest False (Payload two_words) (wat_reload wat_on_river)
      = Inr (wat_fresh\<lparr>sessionStorage := sessionStorage wat_on_river\<rparr>)"
    by (simp add: wat_startTest_def wat_startFresh_def wat_loadSavedProgress_def
        wat_reload_def wat_on_river_def wat_fresh_def two_words_def wat_startTimer_def)
  then show ?thesis
    using input_is_not_persisted [of wat_on_river "utf16 ''River ba''" "Payload two_words" False
        wat_on_river]
    by (auto simp: wat_on_river_def wat_fresh_def)
qed

text \<open>
  Claim C5, amended. When the stored entry is a text that \<^verbatim>\<open>JSON.parse\<close> rejects, or the
  text \<^verbatim>\<open>null\<close>, loading reports that nothing was saved and removes the entry, and the
  start of the test goes the same way, to the same state, as with no entry at all.
\<close>

theorem corrupt_progress_is_absent:
  assumes "sessionStorage s wat_key = Some Unparseable
           \<or> sessionStorage s wat_key = Some (Doc JNull)"
  shows "wat_loadSavedProgress s =
           Loaded False (s\<lparr>sessionStorage := (sessionStorage s)(wat_key := None)\<rparr>)
     \<and> wat_loadSavedProgress (s\<lparr>sessionStorage := (sessionStorage s)(wat_key := None)\<rparr>) =
           Loaded False (s\<lparr>sessionStorage := (sessionStorage s)(wat_key := None)\<rparr>)
     \<and> wat_startTest confirmResume fetched s =
         wat_startTest confirmResume fetched
           (s\<lparr>sessionStorage := (sessionStorage s)(wat_key := None)\<rparr>)"
proof -
  let ?gone = "(sessionStorage s)(wat_key := None)"
  have same: "(s\<lparr>sessionStorage := ?gone\<rparr>)\<lparr>error := None, sessionId := None\<rparr> =
      (s\<lparr>error := None, sessionId := None\<rparr>)\<lparr>sessionStorage := ?gone\<rparr>"
    by (cases s) simp
  have l1: "wat_loadSavedProgress t = Loaded False (t\<lparr>sessionStorage := ?gone\<rparr>)"
    if "sessionStorage t = sessionStorage s" for t
    using assms that by (auto simp: wat_loadSavedProgress_def)
  have l2: "wat_loadSavedProgress t = Loaded False t"
    if "sessionStorage t = ?gone" for t
    using that by (simp add: wat_loadSavedProgress_def)
  have "wat_loadSavedProgress (s\<lparr>error := None, sessionId := None\<rparr>) =
      wat_loadSavedProgress ((s\<lparr>sessionStorage := ?gone\<rparr>)\<lparr>error := None, sessionId := None\<rparr>)"
    by (simp add: l1 l2 same)
  then have "wat_startTest confirmResume fetched s =
      wat_startTest confirmResume fetched (s\<lparr>sessionStorage := ?gone\<rparr>)"
    by (simp add: wat_startTest_def)
  then show ?thesis by (simp add: l1 l2)
qed

theorem corrupt_progress_is_absent_witness:
  "sessionStorage (wat_reload (wat_fresh\<lparr>sessionStorage := [wat_key \<mapsto> Unparseable]\<rparr>)) wat_key
     = Some Unparseable
   \<and> (\<exists>r. wat_startTest True (Payload two_words)
             (wat_reload (wat_fresh\<lparr>sessionStorage := [wat_key \<mapsto> Unparseable]\<rparr>)) = Inr r
          \<and> testState r = Running \<and> words r = [utf16 ''Fire'', utf16 ''River'']
          \<and> currentWordIndex r = 0 \<and> allResponses r = []
          \<and> sessionStorage r wat_key = None)"
  using corrupt_progress_is_absent
    [of "wat_reload (wat_fresh\<lparr>sessionStorage := [wat_key \<mapsto> Unparseable]\<rparr>)" True
        "Payload two_words"]
  by (simp add: wat_startTest_def wat_startFresh_def wat_loadSavedProgress_def wat_reload_def
      wat_fresh_def two_words_def wat_startTimer_def)

text \<open>
  The claim as stated fails for a stored text that parses but is not a snapshot: with
  the entry \<^verbatim>\<open>{}\<close>, which does not decode to a \<^verbatim>\<open>TestProgress\<close>, loading reports saved
  progress and keeps the entry, and the start does not take the fresh path.
\<close>

theorem parsed_non_snapshot_counterexample:
  "decodeProgress (JObj []) = None
   \<and> wat_loadSavedProgress (wat_reload (wat_fresh\<lparr>sessionStorage := [wat_key \<mapsto> Doc (JObj [])]\<rparr>))
       = Untyped (JObj []) (wat_reload (wat_fresh\<lparr>sessionStorage := [wat_key \<mapsto> Doc (JObj [])]\<rparr>))
   \<and> wat_startTest True (Payload two_words)
         (wat_reload (wat_fresh\<lparr>sessionStorage := [wat_key \<mapsto> Doc (JObj [])]\<rparr>))
       = Inl (UntypedProgress (JObj []))
   \<and> wat_startTest True (Payload two_words)
         (wat_reload (wat_fresh\<lparr>sessionStorage := Map.empty\<rparr>))
       = Inr (wat_fresh\<lparr>sessionStorage := Map.empty\<rparr>)"
  by (simp add: decodeProgress_def wat_loadSavedProgress_def wat_startTest_def
      wat_startFresh_def wat_reload_def wat_fresh_def two_words_def wat_startTimer_def)

section \<open>Saving the finished session\<close>

lemma wat_saveSettled_failed:
  "\<not> is_saved (cl n) \<Longrightarrow>
   wat_saveSettled cl n rs k s =
     (if k < 2
      then s\<lparr>isSaving := False, error := failure_message (cl n),
             effects := effects s @ [Timeout 2000],
             pending := pending s @ [Scheduled rs (k + 1)]\<rparr>
      else s\<lparr>isSaving := False, error := failure_message (cl n)\<rparr>)"
  by (cases "cl n"; cases s) (simp_all add: wat_saveSettled_def Let_def)

lemma wat_saveSettled_saved:
  "cl n = Saved i \<Longrightarrow>
   wat_saveSettled cl n rs k s =
     s\<lparr>sessionId := Some i, testState := Finished,
        sessionStorage := (sessionStorage s)(wat_key := None), isSaving := False\<rparr>"
  by (simp add: wat_saveSettled_def wat_clearSavedProgress_def)

lemma failure_message_not_saved: "\<not> is_saved r \<Longrightarrow> \<exists>y. failure_message r = Some y"
  by (cases r) simp_all

lemma wat_run_snoc: "wat_run cl (evs @ [ev]) s = wat_step cl ev (wat_run cl evs s)"
  by (simp add: wat_run_def)

subsection \<open>The chain of attempts that a click starts, left alone\<close>

text \<open>
  A click on the finish button on the last word, with time left, nothing waited for and a
  client that never saves; then, with no other event in between, the outcome of the
  call, the timeout, the outcome, the timeout, the outcome. There are three attempts with
  the same responses, retry counts 0, 1 and 2, a timeout of 2000 ms before each retry;
  at the end nothing is waited for, the test is running with the error shown, and the
  responses and the stored progress are kept.
\<close>

lemma wat_undisturbed_failures:
  assumes "testState s = Running"
    and "int (currentWordIndex s) = int (length (words s)) - 1"
    and "\<not> isSaving s" and "pending s = []" and "0 < timeLeft s"
    and "trim (currentResponse s) \<noteq> []"
    and "\<forall>n. \<not> is_saved (cl n)"
  shows "let rs = allResponses s @ [\<lparr>word = nth_opt (words s) (currentWordIndex s),
                    response = trim (currentResponse s),
                    timeSpent = max 0 (15 - timeLeft s)\<rparr>];
             s' = wat_run cl [ClickSubmit, Reply 0, Fire 0, Reply 0, Fire 0, Reply 0] s
         in effects s' = effects s @ [SaveAttempt rs 0, Timeout 2000, SaveAttempt rs 1,
                                       Timeout 2000, SaveAttempt rs 2]
            \<and> saveCalls s' = saveCalls s + 3
            \<and> pending s' = [] \<and> \<not> isSaving s' \<and> error s' \<noteq> None
            \<and> testState s' = Running \<and> allResponses s' = rs
            \<and> sessionStorage s' wat_key =
                 Some (Doc (encodeProgress (wat_progress (s\<lparr>allResponses := rs\<rparr>))))"
proof -
  have "words s \<noteq> []" using assms(2) by auto
  then show ?thesis
  using assms failure_message_not_saved [of "cl (Suc (Suc (saveCalls s)))"]
  by (auto simp add: wat_step_def wat_autoSave_def wat_autoAdvance_def
      wat_handleWordComplete_def wat_saveSessionAndFinish_def wat_reply_def wat_fire_def
      wat_saveSettled_failed nth_opt_def drop_nth_def Let_def wat_progress_def)
qed

text \<open>
  The same chain with a client that fails at the first two calls and saves at the third:
  the test is finished with the identifier the server gave, three calls were made, the
  third of them saved, nothing is waited for and the stored progress is removed.
\<close>

lemma wat_undisturbed_success:
  assumes "testState s = Running"
    and "int (currentWordIndex s) = int (length (words s)) - 1"
    and "\<not> isSaving s" and "pending s = []" and "0 < timeLeft s"
    and "trim (currentResponse s) \<noteq> []"
    and "\<not> is_saved (cl (saveCalls s))" and "\<not> is_saved (cl (saveCalls s + 1))"
    and "cl (saveCalls s + 2) = Saved i"
  shows "let rs = allResponses s @ [\<lparr>word = nth_opt (words s) (currentWordIndex s),
                    response = trim (currentResponse s),
                    timeSpent = max 0 (15 - timeLeft s)\<rparr>];
             s' = wat_run cl [ClickSubmit, Reply 0, Fire 0, Reply 0, Fire 0, Reply 0] s
         in effects s' = effects s @ [SaveAttempt rs 0, Timeout 2000, SaveAttempt rs 1,
                                       Timeout 2000, SaveAttempt rs 2]
            \<and> saveCalls s' = saveCalls s + 3
            \<and> pending s' = [] \<and> \<not> isSaving s'
            \<and> testState s' = Finished \<and> sessionId s' = Some i \<and> allResponses s' = rs
            \<and> sessionStorage s' wat_key = None"
proof -
  have "words s \<noteq> []" using assms(2) by auto
  then show ?thesis
  using assms
  by (auto simp add: wat_step_def wat_autoSave_def wat_autoAdvance_def
      wat_handleWordComplete_def wat_saveSessionAndFinish_def wat_reply_def wat_fire_def
      wat_saveSettled_failed wat_saveSettled_saved nth_opt_def drop_nth_def Let_def
      wat_progress_def)
qed

subsection \<open>The attempts that the expiry of the time starts\<close>

text \<open>
  On the last word the advance leaves the time at zero and the test running, so the
  advancing effect is due at every render. With a client that never saves, each outcome
  is followed at once by a new advance and a new first attempt: after the firing of the
  timer and \<open>k\<close> outcomes there have been \<open>k + 1\<close> calls, the responses are those of the
  first word and \<open>k + 1\<close> blank ones for the second, and the test is running and saving.
\<close>

lemma wat_expiry_attempts:
  "testState (wat_run offline (Tick # map Reply [0..<k]) wat_expiring) = Running
   \<and> timeLeft (wat_run offline (Tick # map Reply [0..<k]) wat_expiring) = 0
   \<and> words (wat_run offline (Tick # map Reply [0..<k]) wat_expiring)
       = [utf16 ''Fire'', utf16 ''River'']
   \<and> currentWordIndex (wat_run offline (Tick # map Reply [0..<k]) wat_expiring) = 1
   \<and> isSaving (wat_run offline (Tick # map Reply [0..<k]) wat_expiring)
   \<and> currentResponse (wat_run offline (Tick # map Reply [0..<k]) wat_expiring) = []
   \<and> saveCalls (wat_run offline (Tick # map Reply [0..<k]) wat_expiring) = k + 1
   \<and> allResponses (wat_run offline (Tick # map Reply [0..<k]) wat_expiring)
       = fire_truck # replicate (k + 1) river_blank
   \<and> length (pending (wat_run offline (Tick # map Reply [0..<k]) wat_expiring)) = k + 1
   \<and> pending (wat_run offline (Tick # map Reply [0..<k]) wat_expiring) ! k
       = Awaiting k (fire_truck # replicate (k + 1) river_blank) 0"
proof (induction k)
  case 0
  show ?case
    by (simp add: wat_step_def wat_autoSave_def wat_autoAdvance_def wat_tick_def
        wat_handleWordComplete_def wat_saveSessionAndFinish_def
        wat_expiring_def wat_on_river_def wat_fresh_def river_blank_def Let_def nth_opt_def)
next
  case (Suc k)
  define s where "s = wat_run offline (Tick # map Reply [0..<k]) wat_expiring"
  have run: "wat_run offline (Tick # map Reply [0..<Suc k]) wat_expiring
      = wat_step offline (Reply k) s"
    using wat_run_snoc [of offline "Tick # map Reply [0..<k]" "Reply k" wat_expiring]
    by (simp add: s_def)
  have river: "nth_opt [utf16 ''Fire'', utf16 ''River''] 1 = Some (utf16 ''River'')"
    by (simp add: nth_opt_def)
  have rep: "replicate k river_blank @ [river_blank] = river_blank # replicate k river_blank"
    by (simp add: replicate_append_same)
  from Suc.IH show ?case
    unfolding run s_def [symmetric]
    by (simp add: wat_step_def wat_autoSave_def wat_autoAdvance_def
        wat_handleWordComplete_def wat_saveSessionAndFinish_def wat_reply_def
        wat_saveSettled_def offline_def nth_opt_def drop_nth_def Let_def river
        river_blank_def [symmetric] nth_append rep)
qed

text \<open>
  Claim C2. With a client that fails on every call, the advance forced by the expiry of
  the time on the last of two words is not followed by three attempts. The timer brings
  the time left to zero and the effect advances: a blank response for the last word and a
  first attempt. Each failure is followed, in the same render, by another advance: one
  more blank response and a new attempt with retry count 0. After three failures there
  have been four attempts, none of them a retry and none after a delay, the three
  timeouts of 2000 ms are still to fire, the fourth call is awaited, and the responses
  number five for two words. The number of attempts has no bound: after \<open>k\<close> failures
  there have been \<open>k + 1\<close>.
\<close>

theorem expiry_save_is_not_bounded:
  "(\<forall>n. \<not> is_saved (offline n))
   \<and> effects (wat_run offline [Tick, Reply 0, Reply 1, Reply 2] wat_expiring) =
       [SaveAttempt [fire_truck, river_blank] 0, Timeout 2000,
        SaveAttempt [fire_truck, river_blank, river_blank] 0, Timeout 2000,
        SaveAttempt [fire_truck, river_blank, river_blank, river_blank] 0, Timeout 2000,
        SaveAttempt [fire_truck, river_blank, river_blank, river_blank, river_blank] 0]
   \<and> pending (wat_run offline [Tick, Reply 0, Reply 1, Reply 2] wat_expiring) =
       [Scheduled [fire_truck, river_blank] 1,
        Scheduled [fire_truck, river_blank, river_blank] 1,
        Scheduled [fire_truck, river_blank, river_blank, river_blank] 1,
        Awaiting 3 [fire_truck, river_blank, river_blank, river_blank, river_blank] 0]
   \<and> saveCalls (wat_run offline [Tick, Reply 0, Reply 1, Reply 2] wat_expiring) = 4
   \<and> allResponses (wat_run offline [Tick, Reply 0, Reply 1, Reply 2] wat_expiring) =
       [fire_truck, river_blank, river_blank, river_blank, river_blank]
   \<and> words (wat_run offline [Tick, Reply 0, Reply 1, Reply 2] wat_expiring) =
       [utf16 ''Fire'', utf16 ''River'']
   \<and> testState (wat_run offline [Tick, Reply 0, Reply 1, Reply 2] wat_expiring) = Running
   \<and> (\<forall>k. saveCalls (wat_run offline (Tick # map Reply [0..<k]) wat_expiring) = k + 1
          \<and> length (allResponses (wat_run offline (Tick # map Reply [0..<k]) wat_expiring))
              = k + 2)"
proof -
  have a: "\<forall>n. \<not> is_saved (offline n)"
    by (simp add: offline_def)
  have river: "nth_opt [utf16 ''Fire'', utf16 ''River''] 1 = Some (utf16 ''River'')"
    by (simp add: nth_opt_def)
  have b: "wat_run offline [Tick, Reply 0, Reply 1, Reply 2] wat_expiring =
      wat_expiring\<lparr>timeLeft := 0, timerRef := False, isSaving := True, error := None,
        saveCalls := 4,
        allResponses := [fire_truck, river_blank, river_blank, river_blank, river_blank],
        effects :=
          [SaveAttempt [fire_truck, river_blank] 0, Timeout 2000,
           SaveAttempt [fire_truck, river_blank, river_blank] 0, Timeout 2000,
           SaveAttempt [fire_truck, river_blank, river_blank, river_blank] 0, Timeout 2000,
           SaveAttempt [fire_truck, river_blank, river_blank, river_blank, river_blank] 0],
        pending :=
          [Scheduled [fire_truck, river_blank] 1,
           Scheduled [fire_truck, river_blank, river_blank] 1,
           Scheduled [fire_truck, river_blank, river_blank, river_blank] 1,
           Awaiting 3 [fire_truck, river_blank, river_blank, river_blank, river_blank] 0],
        sessionStorage := [wat_key \<mapsto> Doc (encodeProgress
          \<lparr>p_currentWordIndex = 1,
           p_allResponses = [fire_truck, river_blank, river_blank, river_blank, river_blank],
           p_timeLeft = 0, p_words = [utf16 ''Fire'', utf16 ''River'']\<rparr>)]\<rparr>"
    by (simp add: wat_step_def wat_autoSave_def wat_autoAdvance_def wat_tick_def
        wat_handleWordComplete_def wat_saveSessionAndFinish_def wat_reply_def
        wat_saveSettled_def offline_def nth_opt_def drop_nth_def Let_def river
        wat_progress_def wat_expiring_def wat_on_river_def wat_fresh_def
        river_blank_def [symmetric])
  have c: "saveCalls (wat_run offline (Tick # map Reply [0..<k]) wat_expiring) = k + 1
      \<and> length (allResponses (wat_run offline (Tick # map Reply [0..<k]) wat_expiring)) = k + 2"
    for k
    using wat_expiry_attempts [of k] by simp
  show ?thesis
    unfolding b using a c by (simp add: wat_expiring_def wat_on_river_def wat_fresh_def)
qed

text \<open>
  Claim C4. With a client that fails twice and saves from the third call on, the advance
  forced by the expiry of the time on the last of two words ends in the finished state,
  but not as the claim says. The call that saves is the third first attempt; it carries
  four responses for two words. The two timeouts set by the failures are not cleared:
  when the first of them fires on the finished page, the responses of the first attempt
  are sent again, and this fourth call saves too, under another identifier.
\<close>

theorem stale_retry_saves_again:
  "map from_third [0, 1, 2, 3] =
       [Rejected ''Failed to fetch'', Rejected ''Failed to fetch'', Saved 9, Saved 10]
   \<and> testState (wat_run from_third [Tick, Reply 0, Reply 1, Reply 2] wat_expiring) = Finished
   \<and> sessionId (wat_run from_third [Tick, Reply 0, Reply 1, Reply 2] wat_expiring) = Some 9
   \<and> effects (wat_run from_third [Tick, Reply 0, Reply 1, Reply 2] wat_expiring) =
       [SaveAttempt [fire_truck, river_blank] 0, Timeout 2000,
        SaveAttempt [fire_truck, river_blank, river_blank] 0, Timeout 2000,
        SaveAttempt [fire_truck, river_blank, river_blank, river_blank] 0]
   \<and> pending (wat_run from_third [Tick, Reply 0, Reply 1, Reply 2] wat_expiring) =
       [Scheduled [fire_truck, river_blank] 1,
        Scheduled [fire_truck, river_blank, river_blank] 1]
   \<and> testState (wat_run from_third [Tick, Reply 0, Reply 1, Reply 2, Fire 0, Reply 1]
        wat_expiring) = Finished
   \<and> sessionId (wat_run from_third [Tick, Reply 0, Reply 1, Reply 2, Fire 0, Reply 1]
        wat_expiring) = Some 10
   \<and> saveCalls (wat_run from_third [Tick, Reply 0, Reply 1, Reply 2, Fire 0, Reply 1]
        wat_expiring) = 4
   \<and> effects (wat_run from_third [Tick, Reply 0, Reply 1, Reply 2, Fire 0, Reply 1]
        wat_expiring) =
       [SaveAttempt [fire_truck, river_blank] 0, Timeout 2000,
        SaveAttempt [fire_truck, river_blank, river_blank] 0, Timeout 2000,
        SaveAttempt [fire_truck, river_blank, river_blank, river_blank] 0,
        SaveAttempt [fire_truck, river_blank] 1]
   \<and> sessionStorage (wat_run from_third [Tick, Reply 0, Reply 1, Reply 2, Fire 0, Reply 1]
        wat_expiring) wat_key = None"
proof -
  have river: "nth_opt [utf16 ''Fire'', utf16 ''River''] 1 = Some (utf16 ''River'')"
    by (simp add: nth_opt_def)
  have a: "wat_run from_third [Tick, Reply 0, Reply 1, Reply 2] wat_expiring =
      wat_expiring\<lparr>timeLeft := 0, timerRef := False, isSaving := False,
        error := None, saveCalls := 3,
        allResponses := [fire_truck, river_blank, river_blank, river_blank],
        effects :=
          [SaveAttempt [fire_truck, river_blank] 0, Timeout 2000,
           SaveAttempt [fire_truck, river_blank, river_blank] 0, Timeout 2000,
           SaveAttempt [fire_truck, river_blank, river_blank, river_blank] 0],
        pending :=
          [Scheduled [fire_truck, river_blank] 1,
           Scheduled [fire_truck, river_blank, river_blank] 1],
        sessionId := Some 9, testState := Finished, sessionStorage := Map.empty\<rparr>"
    by (simp add: wat_step_def wat_autoSave_def wat_autoAdvance_def wat_tick_def
        wat_handleWordComplete_def wat_saveSessionAndFinish_def wat_reply_def
        wat_saveSettled_def wat_clearSavedProgress_def from_third_def nth_opt_def
        drop_nth_def Let_def river wat_progress_def wat_expiring_def wat_on_river_def
        wat_fresh_def river_blank_def [symmetric])
  have b: "wat_run from_third [Tick, Reply 0, Reply 1, Reply 2, Fire 0, Reply 1] wat_expiring
      = wat_run from_third [Fire 0, Reply 1]
          (wat_run from_third [Tick, Reply 0, Reply 1, Reply 2] wat_expiring)"
    by simp
  have c: "map from_third [0, 1, 2, 3] =
       [Rejected ''Failed to fetch'', Rejected ''Failed to fetch'', Saved 9, Saved 10]"
    by (simp add: from_third_def)
  show ?thesis
    unfolding b a using c
    by (simp add: wat_step_def wat_autoSave_def wat_autoAdvance_def wat_fire_def
        wat_saveSessionAndFinish_def wat_reply_def wat_saveSettled_def
        wat_clearSavedProgress_def from_third_def nth_opt_def drop_nth_def Let_def
        wat_expiring_def wat_on_river_def wat_fresh_def)
qed

section \<open>Expiry of the time\<close>

text \<open>An input of white space only, ASCII or not, has an empty trimmed text.\<close>

lemma trim_blank: "trim [0x20, 0xA0, 0x2003, 0x09] = []"
  by (simp add: trim_def isSpace_def)

text \<open>
  On a word that is not the last, the firing of the timer that brings the time left to
  zero advances whatever the input holds: the response captured has the trimmed input as
  its text, empty for an empty or blank input, and 15 seconds spent; the index moves to
  the next word, the time left is 15 again, the interval is set, the input is empty, and
  no save is started. The state is then at rest: a further render changes nothing.
\<close>

lemma wat_expiry_advances:
  assumes "testState s = Running" and "timerRef s" and "timeLeft s \<le> 1" and "words s \<noteq> []"
    and "int (currentWordIndex s) \<noteq> int (length (words s)) - 1"
  shows "let s' = wat_step cl Tick s
         in allResponses s' = allResponses s @
                [\<lparr>word = nth_opt (words s) (currentWordIndex s),
                  response = trim (currentResponse s), timeSpent = 15\<rparr>]
            \<and> currentWordIndex s' = currentWordIndex s + 1
            \<and> timeLeft s' = 15 \<and> timerRef s' \<and> currentResponse s' = []
            \<and> testState s' = Running \<and> words s' = words s
            \<and> effects s' = effects s \<and> saveCalls s' = saveCalls s
            \<and> pending s' = pending s \<and> isSaving s' = isSaving s
            \<and> wat_step cl Render s' = s'"
  using assms
  by (simp add: wat_step_def wat_autoSave_def wat_autoAdvance_def wat_tick_def
      wat_handleWordComplete_def Let_def wat_progress_def)

text \<open>The explicit paths, Ctrl+Enter and the two buttons, do nothing on a running page
  whose trimmed input is empty.\<close>

lemma wat_empty_input_refused:
  assumes "testState s = Running" and "trim (currentResponse s) = []"
  shows "wat_handle cl (KeyDown ''Enter'' True) s = s
     \<and> wat_handle cl ClickNext s = s \<and> wat_handle cl ClickSubmit s = s"
  using assms by (simp add: wat_handleKeyPress_def)

text \<open>
  On the last word, with no save running, the same firing captures the response and hands
  the responses to the save function, one for each word when there was one for each
  earlier word. But the index, the time left (zero) and the test state (running) stay, so
  the effect is due again: the next render captures one more response for the last word.
\<close>

lemma wat_expiry_on_last_word:
  assumes "testState s = Running" and "timerRef s" and "timeLeft s \<le> 1" and "words s \<noteq> []"
    and "int (currentWordIndex s) = int (length (words s)) - 1" and "\<not> isSaving s"
  shows "let s' = wat_step cl Tick s;
             rs = allResponses s @
                [\<lparr>word = nth_opt (words s) (currentWordIndex s),
                  response = trim (currentResponse s), timeSpent = 15\<rparr>]
         in allResponses s' = rs
            \<and> effects s' = effects s @ [SaveAttempt rs 0]
            \<and> pending s' = pending s @ [Awaiting (saveCalls s) rs 0]
            \<and> (length (allResponses s) = currentWordIndex s \<longrightarrow> length rs = length (words s))
            \<and> testState s' = Running \<and> timeLeft s' = 0 \<and> isSaving s'
            \<and> currentWordIndex s' = currentWordIndex s
            \<and> allResponses (wat_step cl Render s') =
                rs @ [\<lparr>word = nth_opt (words s) (currentWordIndex s),
                       response = [], timeSpent = 15\<rparr>]
            \<and> effects (wat_step cl Render s') = effects s'"
  using assms
  by (auto simp add: wat_step_def wat_autoSave_def wat_autoAdvance_def wat_tick_def
      wat_handleWordComplete_def wat_saveSessionAndFinish_def Let_def wat_progress_def)

text \<open>
  Claim C8. On the last of two words the expiry of the time does not leave one response
  for each word. The firing of the timer captures a blank response for the last word and
  starts the save with two responses, as claimed; the render that follows captures a
  second blank response for the same word, and the stored progress holds three responses
  for two words. With a client that fails once and then saves, the failure is followed
  by one more capture and a new attempt, and the session that is saved carries four
  responses for two words.
\<close>

theorem expiry_on_the_last_word_repeats:
  "allResponses (wat_step from_second Tick wat_expiring) = [fire_truck, river_blank]
   \<and> effects (wat_step from_second Tick wat_expiring) = [SaveAttempt [fire_truck, river_blank] 0]
   \<and> testState (wat_step from_second Tick wat_expiring) = Running
   \<and> timeLeft (wat_step from_second Tick wat_expiring) = 0
   \<and> allResponses (wat_run from_second [Tick, Render] wat_expiring) =
       [fire_truck, river_blank, river_blank]
   \<and> words (wat_run from_second [Tick, Render] wat_expiring) = [utf16 ''Fire'', utf16 ''River'']
   \<and> sessionStorage (wat_run from_second [Tick, Render] wat_expiring) wat_key =
       Some (Doc (encodeProgress
         \<lparr>p_currentWordIndex = 1, p_allResponses = [fire_truck, river_blank, river_blank],
          p_timeLeft = 0, p_words = [utf16 ''Fire'', utf16 ''River'']\<rparr>))
   \<and> map from_second [0, 1] = [Rejected ''Failed to fetch'', Saved 8]
   \<and> effects (wat_run from_second [Tick, Render, Reply 0, Reply 1] wat_expiring) =
       [SaveAttempt [fire_truck, river_blank] 0, Timeout 2000,
        SaveAttempt [fire_truck, river_blank, river_blank, river_blank] 0]
   \<and> testState (wat_run from_second [Tick, Render, Reply 0, Reply 1] wat_expiring) = Finished
   \<and> sessionId (wat_run from_second [Tick, Render, Reply 0, Reply 1] wat_expiring) = Some 8"
proof -
  have river: "nth_opt [utf16 ''Fire'', utf16 ''River''] 1 = Some (utf16 ''River'')"
    by (simp add: nth_opt_def)
  show ?thesis
    by (simp add: wat_step_def wat_autoSave_def wat_autoAdvance_def wat_tick_def
        wat_handleWordComplete_def wat_saveSessionAndFinish_def wat_reply_def
        wat_saveSettled_def wat_clearSavedProgress_def from_second_def nth_opt_def
        drop_nth_def Let_def river wat_progress_def wat_expiring_def wat_on_river_def
        wat_fresh_def river_blank_def [symmetric])
qed

section \<open>Time spent\<close>















end
